theory Spec2Isabelle
  imports Main
begin

section \<open>Failures, captured failures and outcomes\<close>

text \<open>
  The failures that can propagate through the code of \<^verbatim>\<open>folly/Try-inl.h\<close>:
  the uninitialized-access error raised by \<^verbatim>\<open>throw_exception<UsingUninitializedTry>()\<close>,
  and the failures of the caller's operations, which \<^verbatim>\<open>makeTryWith\<close> separates by its
  two handlers: \<^verbatim>\<open>catch (std::exception& e)\<close> and \<^verbatim>\<open>catch (...)\<close>. The payload
  \<open>'x\<close> is whatever identifies a failure (its category and message).
\<close>

datatype 'x exn = UsingUninitializedTry | Std_exception 'x | Other_exception 'x

text \<open>
  Which handler of \<^verbatim>\<open>makeTryWith\<close> a propagating failure reaches. The class
  \<^verbatim>\<open>UsingUninitializedTry\<close> is declared outside this file; it is taken to be one of
  the standard-library failure categories, as folly's own exception classes are.
\<close>

fun is_std_exception :: "'x exn \<Rightarrow> bool" where
  "is_std_exception UsingUninitializedTry = True"
| "is_std_exception (Std_exception x) = True"
| "is_std_exception (Other_exception x) = False"

text \<open>
  Modelled from the spec: the captured-failure object \<^verbatim>\<open>exception_wrapper\<close> is
  declared outside this file. The spec treats it as an opaque payload that can be
  constructed from the currently propagating failure, copied, moved, and that re-raises
  itself on demand. The three constructors are the three ways this file builds one:
  \<^verbatim>\<open>exception_wrapper()\<close> (the member of a default-constructed \<^verbatim>\<open>Try<void>\<close>),
  \<^verbatim>\<open>exception_wrapper(std::current_exception(), e)\<close> and
  \<^verbatim>\<open>exception_wrapper(std::current_exception())\<close>.
\<close>

datatype 'x exception_wrapper =
    Wrapper_empty
  | Wrapper_std "'x exn"
  | Wrapper_ptr "'x exn"

text \<open>
  What a call can do: return, raise a failure, re-raise from a wrapper that holds no
  failure (the spec's ``null failure''), touch an object or a union member that is not
  alive, which the language leaves undefined, or end the program through
  \<^verbatim>\<open>std::terminate\<close>, which is what a failure that would leave a \<^verbatim>\<open>noexcept\<close>
  function does.
\<close>

datatype ('x, 'r) outcome =
    Returns 'r
  | Throws "'x exn"
  | Null_failure
  | Undefined
  | Terminates

text \<open>
  Modelled from the spec: \<^verbatim>\<open>exception_wrapper::throw_exception()\<close> re-raises the
  captured failure; on a wrapper that holds none it raises the null failure.
\<close>

fun throw_exception :: "'x exception_wrapper \<Rightarrow> ('x, unit) outcome" where
  "throw_exception Wrapper_empty = Null_failure"
| "throw_exception (Wrapper_std x) = Throws x"
| "throw_exception (Wrapper_ptr x) = Throws x"

text \<open>The failure a wrapper has captured, if any.\<close>

fun captured :: "'x exception_wrapper \<Rightarrow> 'x exn option" where
  "captured Wrapper_empty = None"
| "captured (Wrapper_std x) = Some x"
| "captured (Wrapper_ptr x) = Some x"

section \<open>The container \<^verbatim>\<open>Try<T>\<close>\<close>

text \<open>
  The tag \<^verbatim>\<open>contains_\<close> (field \<open>m_contains\<close>: a name cannot end in an underscore
  here) and the anonymous union of \<^verbatim>\<open>T value_\<close> and \<^verbatim>\<open>exception_wrapper e_\<close>
  (field \<open>m_storage\<close>). The union is one piece of storage in which at most one member
  is alive: \<open>Raw\<close> is storage with no live member, \<open>Value_alive v\<close> is a live
  \<^verbatim>\<open>value_\<close> holding \<open>v\<close>, \<open>E_alive w\<close> is a live \<^verbatim>\<open>e_\<close> holding \<open>w\<close>. The tag
  and the storage are separate fields, as in the code, so that a state in which they
  disagree can be written down.
\<close>

datatype Contains = VALUE | EXCEPTION | NOTHING

datatype ('x, 'a) storage = Raw | Value_alive 'a | E_alive "'x exception_wrapper"

record ('x, 'a) Try =
  m_contains :: Contains
  m_storage :: "('x, 'a) storage"

text \<open>The invariant of the data model: the tag names the live member.\<close>

definition consistent :: "('x, 'a) Try \<Rightarrow> bool" where
  "consistent t =
     (case (m_contains t, m_storage t) of
        (VALUE, Value_alive v) \<Rightarrow> True
      | (EXCEPTION, E_alive w) \<Rightarrow> True
      | (NOTHING, Raw) \<Rightarrow> True
      | _ \<Rightarrow> False)"

text \<open>
  Modelled from the spec: the three constructors of \<^verbatim>\<open>Try<T>\<close> that are declared
  outside this file. Default construction gives the Empty state, construction from a
  value stores the value with state HasValue, construction from a captured failure
  stores the failure object with state HasError.
\<close>

definition Try_default :: "('x, 'a) Try" where
  "Try_default = \<lparr>m_contains = NOTHING, m_storage = Raw\<rparr>"

definition Try_from_value :: "'a \<Rightarrow> ('x, 'a) Try" where
  "Try_from_value v = \<lparr>m_contains = VALUE, m_storage = Value_alive v\<rparr>"

definition Try_from_exception :: "'x exception_wrapper \<Rightarrow> ('x, 'a) Try" where
  "Try_from_exception e = \<lparr>m_contains = EXCEPTION, m_storage = E_alive e\<rparr>"

text \<open>
  \<^verbatim>\<open>Try<T>::throwIfFailed\<close>. The \<^verbatim>\<open>EXCEPTION\<close> case of the switch has no
  \<^verbatim>\<open>return\<close>: were \<^verbatim>\<open>e_.throw_exception()\<close> to return, control would fall into the
  \<^verbatim>\<open>default\<close> case. Reading \<^verbatim>\<open>e_\<close> when it is not the live member is undefined.
\<close>

definition Try_throwIfFailed :: "('x, 'a) Try \<Rightarrow> ('x, unit) outcome" where
  "Try_throwIfFailed t =
     (case m_contains t of
        VALUE \<Rightarrow> Returns ()
      | EXCEPTION \<Rightarrow>
          (case m_storage t of
             E_alive w \<Rightarrow>
               (case throw_exception w of
                  Returns u \<Rightarrow> Throws UsingUninitializedTry
                | Throws x \<Rightarrow> Throws x
                | Null_failure \<Rightarrow> Null_failure
                | Undefined \<Rightarrow> Undefined
                | Terminates \<Rightarrow> Terminates)
           | _ \<Rightarrow> Undefined)
      | NOTHING \<Rightarrow> Throws UsingUninitializedTry)"

text \<open>
  \<^verbatim>\<open>Try<T>::value\<close>. The four overloads (\<^verbatim>\<open>&\<close>, \<^verbatim>\<open>&&\<close>, \<^verbatim>\<open>const &\<close>,
  \<^verbatim>\<open>const &&\<close>) have the same body up to the value category of the reference they
  return: \<^verbatim>\<open>throwIfFailed()\<close>, then \<^verbatim>\<open>value_\<close>.
\<close>

definition Try_value :: "('x, 'a) Try \<Rightarrow> ('x, 'a) outcome" where
  "Try_value t =
     (case Try_throwIfFailed t of
        Returns u \<Rightarrow> (case m_storage t of Value_alive v \<Rightarrow> Returns v | _ \<Rightarrow> Undefined)
      | Throws x \<Rightarrow> Throws x
      | Null_failure \<Rightarrow> Null_failure
      | Undefined \<Rightarrow> Undefined
      | Terminates \<Rightarrow> Terminates)"

section \<open>The specialization \<^verbatim>\<open>Try<void>\<close>\<close>

text \<open>
  The two members that \<^verbatim>\<open>Try<void>::throwIfFailed\<close> reads, \<^verbatim>\<open>hasValue_\<close> and
  \<^verbatim>\<open>e_\<close>: a flag and a captured-failure object, with no three-way tag.
\<close>

record 'x Try_void =
  m_hasValue :: bool
  m_e :: "'x exception_wrapper"

text \<open>\<^verbatim>\<open>Try<void>::throwIfFailed\<close>.\<close>

definition Try_void_throwIfFailed :: "'x Try_void \<Rightarrow> ('x, unit) outcome" where
  "Try_void_throwIfFailed t =
     (if \<not> m_hasValue t then throw_exception (m_e t) else Returns ())"

text \<open>
  Modelled from the spec: the two constructors of \<^verbatim>\<open>Try<void>\<close> that
  \<^verbatim>\<open>makeTryWith\<close> calls and that are declared outside this file. \<^verbatim>\<open>Try<void>()\<close>
  is what a successful void operation yields, a ``has value'' result;
  \<^verbatim>\<open>Try<void>(exception_wrapper)\<close> yields the captured failure.
\<close>

definition Try_void_default :: "'x Try_void" where
  "Try_void_default = \<lparr>m_hasValue = True, m_e = Wrapper_empty\<rparr>"

definition Try_void_from_exception :: "'x exception_wrapper \<Rightarrow> 'x Try_void" where
  "Try_void_from_exception e = \<lparr>m_hasValue = False, m_e = e\<rparr>"

text \<open>
  Modelled from the spec: the accessors \<^verbatim>\<open>hasValue()\<close>, \<^verbatim>\<open>hasException()\<close> and
  \<^verbatim>\<open>exception()\<close> of \<^verbatim>\<open>Try<void>\<close>, declared outside this file. The specialization
  keeps only the flag and the captured-failure object, and its re-raise helper tells
  failure from success by the flag alone; so an object has a failure exactly when it
  has no value, and the failure it gives is \<^verbatim>\<open>e_\<close>.
\<close>

definition Try_void_hasValue :: "'x Try_void \<Rightarrow> bool" where
  "Try_void_hasValue t = m_hasValue t"

definition Try_void_hasException :: "'x Try_void \<Rightarrow> bool" where
  "Try_void_hasException t = (\<not> m_hasValue t)"

definition Try_void_exception :: "'x Try_void \<Rightarrow> 'x exception_wrapper" where
  "Try_void_exception t = m_e t"

section \<open>The member types\<close>

text \<open>
  What this file relies on from the member types, whose special member functions are
  not part of it. For \<^verbatim>\<open>T\<close>: whether move construction from a value raises, the state
  a value is left in after being moved from (valid, otherwise unspecified), whether
  copy construction raises, and the objects of the store (see below) that a value
  owns, whose lifetime ends when \<^verbatim>\<open>~T\<close> runs on it. For \<^verbatim>\<open>exception_wrapper\<close>: the
  state after being moved from and the objects it owns; the spec gives it as a payload
  that can be copied and moved, and its copies and moves are taken not to raise. A
  successful move hands over the payload and a successful copy duplicates it.
  Destructors are taken not to raise.
\<close>

record ('x, 'a) member_ops =
  T_move_raises :: "'a \<Rightarrow> 'x exn option"
  T_moved_from :: "'a \<Rightarrow> 'a"
  T_copy_raises :: "'a \<Rightarrow> 'x exn option"
  T_owns :: "'a \<Rightarrow> nat list"
  E_moved_from :: "'x exception_wrapper \<Rightarrow> 'x exception_wrapper"
  E_owns :: "'x exception_wrapper \<Rightarrow> nat list"

text \<open>
  Modelled from the spec: construction of a \<^verbatim>\<open>Try<T>\<close> from a value that is about
  to expire, \<^verbatim>\<open>Try(T&& v)\<close>, declared outside this file. It move-constructs
  \<^verbatim>\<open>value_\<close> and ``may throw if \<^verbatim>\<open>T\<close>'s constructor throws'', in which case no
  \<^verbatim>\<open>Try\<close> is constructed.
\<close>

definition Try_ctor_value :: "('x, 'a) member_ops \<Rightarrow> 'a \<Rightarrow> ('x, ('x, 'a) Try) outcome" where
  "Try_ctor_value M v =
     (case T_move_raises M v of
        None \<Rightarrow> Returns (Try_from_value v)
      | Some x \<Rightarrow> Throws x)"

section \<open>Conversion from \<^verbatim>\<open>Try<void>\<close>\<close>

text \<open>
  \<^verbatim>\<open>Try<T>::Try(Try<void> const& t)\<close>, enabled when \<^verbatim>\<open>T\<close> is the unit type.
  \<^verbatim>\<open>new (&value_) T()\<close> builds the one value of the unit type.
\<close>

definition Try_from_Try_void :: "'x Try_void \<Rightarrow> ('x, unit) Try" where
  "Try_from_Try_void t =
     (let this = \<lparr>m_contains = NOTHING, m_storage = Raw\<rparr> in
      if Try_void_hasValue t then
        this\<lparr>m_contains := VALUE, m_storage := Value_alive ()\<rparr>
      else if Try_void_hasException t then
        this\<lparr>m_contains := EXCEPTION, m_storage := E_alive (Try_void_exception t)\<rparr>
      else this)"

section \<open>\<^verbatim>\<open>makeTryWith\<close>\<close>

text \<open>
  A zero-argument operation is a function on the state \<open>'w\<close> of the world it acts on:
  it gives an outcome and the world after the call. Only \<open>Throws\<close> is a failure that
  the two handlers can catch; the other outcomes that are not a return pass through.
\<close>

type_synonym ('w, 'x, 'r) operation = "'w \<Rightarrow> ('x, 'r) outcome \<times> 'w"

text \<open>
  The overload for an operation that returns a value. The \<^verbatim>\<open>try\<close> block holds the
  whole of \<^verbatim>\<open>return Try<ResultType>(f())\<close>: the call and the construction of the
  \<^verbatim>\<open>Try\<close> from what it returns, so that a failure of either reaches the handlers.
\<close>

definition makeTryWith ::
  "('x, 'r) member_ops \<Rightarrow> ('w, 'x, 'r) operation \<Rightarrow> 'w \<Rightarrow> ('x, ('x, 'r) Try) outcome \<times> 'w" where
  "makeTryWith M f w =
     (case f w of
        (r, w') \<Rightarrow>
          (case (case r of
                   Returns v \<Rightarrow> Try_ctor_value M v
                 | Throws x \<Rightarrow> Throws x
                 | Null_failure \<Rightarrow> Null_failure
                 | Undefined \<Rightarrow> Undefined
                 | Terminates \<Rightarrow> Terminates) of
             Returns t \<Rightarrow> (Returns t, w')
           | Throws x \<Rightarrow>
               (if is_std_exception x
                then (Returns (Try_from_exception (Wrapper_std x)), w')
                else (Returns (Try_from_exception (Wrapper_ptr x)), w'))
           | Null_failure \<Rightarrow> (Null_failure, w')
           | Undefined \<Rightarrow> (Undefined, w')
           | Terminates \<Rightarrow> (Terminates, w')))"

text \<open>The overload for an operation that returns \<^verbatim>\<open>void\<close>.\<close>

definition makeTryWith_void ::
  "('w, 'x, unit) operation \<Rightarrow> 'w \<Rightarrow> ('x, 'x Try_void) outcome \<times> 'w" where
  "makeTryWith_void f w =
     (case f w of
        (Returns u, w') \<Rightarrow> (Returns Try_void_default, w')
      | (Throws x, w') \<Rightarrow>
          (if is_std_exception x
           then (Returns (Try_void_from_exception (Wrapper_std x)), w')
           else (Returns (Try_void_from_exception (Wrapper_ptr x)), w'))
      | (Null_failure, w') \<Rightarrow> (Null_failure, w')
      | (Undefined, w') \<Rightarrow> (Undefined, w')
      | (Terminates, w') \<Rightarrow> (Terminates, w'))"

text \<open>
  An operation instrumented with a counter of its invocations: every call of
  \<open>counted f\<close> runs \<open>f\<close> once and adds one to the counter.
\<close>

definition counted :: "('w, 'x, 'r) operation \<Rightarrow> (nat \<times> 'w, 'x, 'r) operation" where
  "counted f = (\<lambda>(n, w). case f w of (r, w') \<Rightarrow> (r, (Suc n, w')))"

section \<open>\<^verbatim>\<open>unwrapTryTuple\<close>\<close>





section \<open>Construction, assignment and destruction in a store\<close>

text \<open>
  Assignment compares and mutates objects through their addresses, so the objects live
  in a store and \<^verbatim>\<open>this\<close> and \<^verbatim>\<open>&t\<close> are addresses, which may be equal. An
  address holds a live object or none: the lifetime of an object can end while another
  object is destroyed, when that object's payload owns it. To read or write a member of
  an object that is not alive is undefined.
\<close>

type_synonym ('x, 'a) store = "nat \<Rightarrow> ('x, 'a) Try option"

definition tag_at :: "('x, 'a) store \<Rightarrow> nat \<Rightarrow> Contains option" where
  "tag_at s p = map_option m_contains (s p)"

definition set_storage :: "nat \<Rightarrow> ('x, 'a) storage \<Rightarrow> ('x, 'a) store \<Rightarrow> ('x, 'a) store" where
  "set_storage p st s = (case s p of None \<Rightarrow> s | Some ob \<Rightarrow> s(p \<mapsto> ob\<lparr>m_storage := st\<rparr>))"

text \<open>The objects that the live member of an object owns.\<close>

definition owned_by :: "('x, 'a) member_ops \<Rightarrow> ('x, 'a) Try \<Rightarrow> nat list" where
  "owned_by M ob =
     (case m_storage ob of
        Raw \<Rightarrow> []
      | Value_alive v \<Rightarrow> T_owns M v
      | E_alive w \<Rightarrow> E_owns M w)"

definition end_lifetimes :: "nat list \<Rightarrow> ('x, 'a) store \<Rightarrow> ('x, 'a) store" where
  "end_lifetimes qs s = (\<lambda>p. if p \<in> set qs then None else s p)"

text \<open>
  \<^verbatim>\<open>value_.~T()\<close> and \<^verbatim>\<open>e_.~exception_wrapper()\<close> on the object at \<open>p\<close>: the member
  is no longer alive, and neither are the objects it owned.
\<close>

definition destroy_value ::
  "('x, 'a) member_ops \<Rightarrow> nat \<Rightarrow> ('x, 'a) store \<Rightarrow> ('x, unit) outcome \<times> ('x, 'a) store" where
  "destroy_value M p s =
     (case s p of
        None \<Rightarrow> (Undefined, s)
      | Some ob \<Rightarrow>
          (case m_storage ob of
             Value_alive v \<Rightarrow> (Returns (), end_lifetimes (T_owns M v) (set_storage p Raw s))
           | _ \<Rightarrow> (Undefined, s)))"

definition destroy_e ::
  "('x, 'a) member_ops \<Rightarrow> nat \<Rightarrow> ('x, 'a) store \<Rightarrow> ('x, unit) outcome \<times> ('x, 'a) store" where
  "destroy_e M p s =
     (case s p of
        None \<Rightarrow> (Undefined, s)
      | Some ob \<Rightarrow>
          (case m_storage ob of
             E_alive w \<Rightarrow> (Returns (), end_lifetimes (E_owns M w) (set_storage p Raw s))
           | _ \<Rightarrow> (Undefined, s)))"

text \<open>
  \<^verbatim>\<open>Try<T>::~Try\<close>. \<^verbatim>\<open>LIKELY\<close> and \<^verbatim>\<open>UNLIKELY\<close> are branch hints and do not
  change the conditions. The tag is left as it is.
\<close>

definition Try_dtor ::
  "('x, 'a) member_ops \<Rightarrow> nat \<Rightarrow> ('x, 'a) store \<Rightarrow> ('x, unit) outcome \<times> ('x, 'a) store" where
  "Try_dtor M this s =
     (if tag_at s this = None then (Undefined, s)
      else if tag_at s this = Some VALUE then destroy_value M this s
      else if tag_at s this = Some EXCEPTION then destroy_e M this s
      else (Returns (), s))"

text \<open>
  The four placement-new expressions: \<^verbatim>\<open>new (&value_) T(std::move(t.value_))\<close>,
  \<^verbatim>\<open>new (&e_) exception_wrapper(std::move(t.e_))\<close>, \<^verbatim>\<open>new (&value_) T(t.value_)\<close>
  and \<^verbatim>\<open>new (&e_) exception_wrapper(t.e_)\<close>. Each reads a member of \<open>t\<close>, which must
  be alive, and, unless the constructor of \<^verbatim>\<open>T\<close> raises, makes the member of
  \<open>this\<close> alive.
\<close>

definition new_value_move ::
  "('x, 'a) member_ops \<Rightarrow> nat \<Rightarrow> nat \<Rightarrow> ('x, 'a) store \<Rightarrow> ('x, unit) outcome \<times> ('x, 'a) store" where
  "new_value_move M this t s =
     (case (s this, s t) of
        (Some dst, Some src) \<Rightarrow>
          (case m_storage src of
             Value_alive v \<Rightarrow>
               (case T_move_raises M v of
                  None \<Rightarrow>
                    (Returns (),
                     set_storage t (Value_alive (T_moved_from M v))
                       (set_storage this (Value_alive v) s))
                | Some x \<Rightarrow> (Throws x, s))
           | _ \<Rightarrow> (Undefined, s))
      | _ \<Rightarrow> (Undefined, s))"

definition new_e_move ::
  "('x, 'a) member_ops \<Rightarrow> nat \<Rightarrow> nat \<Rightarrow> ('x, 'a) store \<Rightarrow> ('x, unit) outcome \<times> ('x, 'a) store" where
  "new_e_move M this t s =
     (case (s this, s t) of
        (Some dst, Some src) \<Rightarrow>
          (case m_storage src of
             E_alive w \<Rightarrow>
               (Returns (),
                set_storage t (E_alive (E_moved_from M w)) (set_storage this (E_alive w) s))
           | _ \<Rightarrow> (Undefined, s))
      | _ \<Rightarrow> (Undefined, s))"

definition new_value_copy ::
  "('x, 'a) member_ops \<Rightarrow> nat \<Rightarrow> nat \<Rightarrow> ('x, 'a) store \<Rightarrow> ('x, unit) outcome \<times> ('x, 'a) store" where
  "new_value_copy M this t s =
     (case (s this, s t) of
        (Some dst, Some src) \<Rightarrow>
          (case m_storage src of
             Value_alive v \<Rightarrow>
               (case T_copy_raises M v of
                  None \<Rightarrow> (Returns (), set_storage this (Value_alive v) s)
                | Some x \<Rightarrow> (Throws x, s))
           | _ \<Rightarrow> (Undefined, s))
      | _ \<Rightarrow> (Undefined, s))"

definition new_e_copy ::
  "nat \<Rightarrow> nat \<Rightarrow> ('x, 'a) store \<Rightarrow> ('x, unit) outcome \<times> ('x, 'a) store" where
  "new_e_copy this t s =
     (case (s this, s t) of
        (Some dst, Some src) \<Rightarrow>
          (case m_storage src of
             E_alive w \<Rightarrow> (Returns (), set_storage this (E_alive w) s)
           | _ \<Rightarrow> (Undefined, s))
      | _ \<Rightarrow> (Undefined, s))"

text \<open>
  A function declared \<^verbatim>\<open>noexcept\<close>: a failure that would leave it ends the program.
\<close>

definition noexcept :: "('x, 'r) outcome \<times> 's \<Rightarrow> ('x, 'r) outcome \<times> 's" where
  "noexcept r = (case r of (Throws x, s) \<Rightarrow> (Terminates, s) | _ \<Rightarrow> r)"

text \<open>
  \<^verbatim>\<open>Try<T>::Try(Try<T>&& t) noexcept\<close>. The object under construction at \<open>this\<close>
  starts with the tag of \<open>t\<close> and no live member.
\<close>

definition Try_move_ctor ::
  "('x, 'a) member_ops \<Rightarrow> nat \<Rightarrow> nat \<Rightarrow> ('x, 'a) store \<Rightarrow> ('x, unit) outcome \<times> ('x, 'a) store" where
  "Try_move_ctor M this t s =
     noexcept
       (case s t of
          None \<Rightarrow> (Undefined, s)
        | Some src \<Rightarrow>
            (let s1 = s(this \<mapsto> \<lparr>m_contains = m_contains src, m_storage = Raw\<rparr>) in
             if tag_at s1 this = Some VALUE then new_value_move M this t s1
             else if tag_at s1 this = Some EXCEPTION then new_e_move M this t s1
             else (Returns (), s1)))"

text \<open>
  What both assignment operators do after \<^verbatim>\<open>this->~Try()\<close>: write the tag of \<open>t\<close>
  into \<^verbatim>\<open>contains_\<close>. Both objects must still be alive.
\<close>

definition adopt_tag ::
  "nat \<Rightarrow> nat \<Rightarrow> ('x, 'a) store \<Rightarrow> ('x, 'a) store option" where
  "adopt_tag this t s =
     (case (s this, s t) of
        (Some dst, Some src) \<Rightarrow> Some (s(this \<mapsto> dst\<lparr>m_contains := m_contains src\<rparr>))
      | _ \<Rightarrow> None)"

text \<open>\<^verbatim>\<open>Try<T>::operator=(Try<T>&& t) noexcept\<close>.\<close>

definition Try_move_assign ::
  "('x, 'a) member_ops \<Rightarrow> nat \<Rightarrow> nat \<Rightarrow> ('x, 'a) store \<Rightarrow> ('x, unit) outcome \<times> ('x, 'a) store" where
  "Try_move_assign M this t s =
     noexcept
       (if this = t then (Returns (), s)
        else
          (case Try_dtor M this s of
             (Returns u, s1) \<Rightarrow>
               (case adopt_tag this t s1 of
                  None \<Rightarrow> (Undefined, s1)
                | Some s2 \<Rightarrow>
                    if tag_at s2 this = Some VALUE then new_value_move M this t s2
                    else if tag_at s2 this = Some EXCEPTION then new_e_move M this t s2
                    else (Returns (), s2))
           | (r, s1) \<Rightarrow> (r, s1)))"

text \<open>
  \<^verbatim>\<open>Try<T>::Try(const Try<T>& t)\<close>. The tag is assigned in the body, before any
  member is made alive.
\<close>

definition Try_copy_ctor ::
  "('x, 'a) member_ops \<Rightarrow> nat \<Rightarrow> nat \<Rightarrow> ('x, 'a) store \<Rightarrow> ('x, unit) outcome \<times> ('x, 'a) store" where
  "Try_copy_ctor M this t s =
     (case s t of
        None \<Rightarrow> (Undefined, s)
      | Some src \<Rightarrow>
          (let s1 = s(this \<mapsto> \<lparr>m_contains = m_contains src, m_storage = Raw\<rparr>) in
           if tag_at s1 this = Some VALUE then new_value_copy M this t s1
           else if tag_at s1 this = Some EXCEPTION then new_e_copy this t s1
           else (Returns (), s1)))"

text \<open>\<^verbatim>\<open>Try<T>::operator=(const Try<T>& t)\<close>. There is no comparison of addresses.\<close>

definition Try_copy_assign ::
  "('x, 'a) member_ops \<Rightarrow> nat \<Rightarrow> nat \<Rightarrow> ('x, 'a) store \<Rightarrow> ('x, unit) outcome \<times> ('x, 'a) store" where
  "Try_copy_assign M this t s =
     (case Try_dtor M this s of
        (Returns u, s1) \<Rightarrow>
          (case adopt_tag this t s1 of
             None \<Rightarrow> (Undefined, s1)
           | Some s2 \<Rightarrow>
               if tag_at s2 this = Some VALUE then new_value_copy M this t s2
               else if tag_at s2 this = Some EXCEPTION then new_e_copy this t s2
               else (Returns (), s2))
      | (r, s1) \<Rightarrow> (r, s1))"

text \<open>
  What a successful move leaves of its source: the tag as it was, and the member that
  was alive still alive, in its moved-from state.
\<close>

definition left_behind :: "('x, 'a) member_ops \<Rightarrow> ('x, 'a) Try \<Rightarrow> ('x, 'a) Try" where
  "left_behind M src =
     (case m_storage src of
        Raw \<Rightarrow> src
      | Value_alive v \<Rightarrow> src\<lparr>m_storage := Value_alive (T_moved_from M v)\<rparr>
      | E_alive w \<Rightarrow> src\<lparr>m_storage := E_alive (E_moved_from M w)\<rparr>)"

section \<open>Example inputs\<close>

text \<open>
  A store with a value at address 0, another value at address 1, a captured failure at
  address 2, an empty object at address 3 and no object elsewhere. Member types that
  move by leaving the payload behind, never raise and own nothing, for values that are
  numbers and for values that are numbers or strings; member types whose copy raises; member types whose move raises; and member types where the value 10
  owns the object at address 1.
\<close>

abbreviation store0 :: "(string, nat) store" where
  "store0 \<equiv> (\<lambda>p. None)
     (0 \<mapsto> Try_from_value 10, 1 \<mapsto> Try_from_value 11,
      2 \<mapsto> Try_from_exception (Wrapper_std (Std_exception ''boom'')),
      3 \<mapsto> Try_default)"

abbreviation ops0 :: "(string, nat) member_ops" where
  "ops0 \<equiv> \<lparr>T_move_raises = (\<lambda>v. None), T_moved_from = (\<lambda>v. v),
     T_copy_raises = (\<lambda>v. None), T_owns = (\<lambda>v. []),
     E_moved_from = (\<lambda>w. Wrapper_empty), E_owns = (\<lambda>w. [])\<rparr>"


abbreviation ops_copy_raising :: "(string, nat) member_ops" where
  "ops_copy_raising \<equiv> ops0\<lparr>T_copy_raises := (\<lambda>v. Some (Std_exception ''bad_alloc''))\<rparr>"

abbreviation ops_move_raising :: "(string, nat) member_ops" where
  "ops_move_raising \<equiv> ops0\<lparr>T_move_raises := (\<lambda>v. Some (Std_exception ''bad_alloc''))\<rparr>"

abbreviation ops_owning :: "(string, nat) member_ops" where
  "ops_owning \<equiv> ops0\<lparr>T_owns := (\<lambda>v. if v = 10 then [1] else [])\<rparr>"

section \<open>Access to the value\<close>

text \<open>
  C1, as the code has it. For every \<^verbatim>\<open>Try<T>\<close> whose tag is \<^verbatim>\<open>NOTHING\<close>, both
  \<^verbatim>\<open>throwIfFailed\<close> and the value accessor raise \<^verbatim>\<open>UsingUninitializedTry\<close>: no
  value is returned and no other failure is raised. \<^verbatim>\<open>Try<void>::throwIfFailed\<close> has
  no uninitialized-access path: when the has-value flag is not set it re-raises through
  \<^verbatim>\<open>e_\<close>, so it raises \<^verbatim>\<open>UsingUninitializedTry\<close> exactly when that is the failure
  \<^verbatim>\<open>e_\<close> has captured.
\<close>

theorem Try_empty_access_raises_uninitialized:
  "(m_contains t = NOTHING \<longrightarrow>
      Try_throwIfFailed t = Throws UsingUninitializedTry \<and>
      Try_value t = Throws UsingUninitializedTry) \<and>
   (\<not> m_hasValue tv \<longrightarrow> Try_void_throwIfFailed tv = throw_exception (m_e tv)) \<and>
   (Try_void_throwIfFailed tv = Throws UsingUninitializedTry \<longleftrightarrow>
      \<not> m_hasValue tv \<and> captured (m_e tv) = Some UsingUninitializedTry)"
proof (intro conjI impI)
  assume "m_contains t = NOTHING"
  then show "Try_throwIfFailed t = Throws UsingUninitializedTry"
    by (simp add: Try_throwIfFailed_def)
  then show "Try_value t = Throws UsingUninitializedTry"
    by (simp add: Try_value_def)
next
  assume "\<not> m_hasValue tv"
  then show "Try_void_throwIfFailed tv = throw_exception (m_e tv)"
    by (simp add: Try_void_throwIfFailed_def)
next
  show "Try_void_throwIfFailed tv = Throws UsingUninitializedTry \<longleftrightarrow>
      \<not> m_hasValue tv \<and> captured (m_e tv) = Some UsingUninitializedTry"
    by (cases "m_e tv") (auto simp: Try_void_throwIfFailed_def)
qed

text \<open>
  The theorem at a default-constructed \<^verbatim>\<open>Try<T>\<close> and at a \<^verbatim>\<open>Try<void>\<close> built
  from a captured failure.
\<close>

theorem Try_empty_access_raises_uninitialized_witness:
  "m_contains (Try_default :: (string, nat) Try) = NOTHING \<and>
   Try_throwIfFailed (Try_default :: (string, nat) Try) = Throws UsingUninitializedTry \<and>
   Try_value (Try_default :: (string, nat) Try) = Throws UsingUninitializedTry \<and>
   \<not> m_hasValue (Try_void_from_exception (Wrapper_ptr (Other_exception ''boom''))) \<and>
   Try_void_throwIfFailed (Try_void_from_exception (Wrapper_ptr (Other_exception ''boom'')))
     = throw_exception (Wrapper_ptr (Other_exception ''boom''))"
proof -
  have empty: "m_contains (Try_default :: (string, nat) Try) = NOTHING"
    by (simp add: Try_default_def)
  have failed: "\<not> m_hasValue (Try_void_from_exception (Wrapper_ptr (Other_exception ''boom'')))"
    by (simp add: Try_void_from_exception_def)
  have sel: "m_e (Try_void_from_exception (Wrapper_ptr (Other_exception ''boom'')))
      = Wrapper_ptr (Other_exception ''boom'')"
    by (simp add: Try_void_from_exception_def)
  show ?thesis
    using Try_empty_access_raises_uninitialized
      [of "Try_default :: (string, nat) Try"
          "Try_void_from_exception (Wrapper_ptr (Other_exception ''boom''))"]
      empty failed
    unfolding sel by blast
qed

text \<open>
  C1 as stated fails on \<^verbatim>\<open>Try<void>\<close>: with the has-value flag unset and no failure
  captured, \<^verbatim>\<open>throwIfFailed\<close> raises the null failure of the empty wrapper, not
  \<^verbatim>\<open>UsingUninitializedTry\<close>.
\<close>

theorem Try_void_empty_counterexample:
  "Try_void_throwIfFailed \<lparr>m_hasValue = False, m_e = (Wrapper_empty :: string exception_wrapper)\<rparr>
     = Null_failure \<and>
   Try_void_throwIfFailed \<lparr>m_hasValue = False, m_e = (Wrapper_empty :: string exception_wrapper)\<rparr>
     \<noteq> Throws UsingUninitializedTry"
  by (simp add: Try_void_throwIfFailed_def)


text \<open>
  C3. For every captured failure, the value accessor of a \<^verbatim>\<open>Try<T>\<close> constructed from
  the wrapper that captured it re-raises that same failure: it returns no value and
  raises no other failure.
\<close>

theorem Try_value_of_exception:
  "captured e = Some x \<Longrightarrow> Try_value (Try_from_exception e) = Throws x"
  by (cases e) (simp_all add: Try_value_def Try_throwIfFailed_def Try_from_exception_def)

text \<open>The theorem at a wrapper built with the handler for standard failures.\<close>

theorem Try_value_of_exception_witness:
  "captured (Wrapper_std (Std_exception ''boom'')) = Some (Std_exception ''boom'') \<and>
   Try_value (Try_from_exception (Wrapper_std (Std_exception ''boom'')) :: (string, nat) Try)
     = Throws (Std_exception ''boom'')"
proof
  show c: "captured (Wrapper_std (Std_exception ''boom'')) = Some (Std_exception ''boom'')"
    by simp
  show "Try_value (Try_from_exception (Wrapper_std (Std_exception ''boom'')) :: (string, nat) Try)
     = Throws (Std_exception ''boom'')"
    by (rule Try_value_of_exception [OF c])
qed

section \<open>Conversion from \<^verbatim>\<open>Try<void>\<close>: two states\<close>

text \<open>
  C5, as the code has it. Converting a \<^verbatim>\<open>Try<void>\<close> to a \<^verbatim>\<open>Try\<close> of the unit
  type: a source that has a value gives HasValue holding the unit value; every source
  whose has-value flag is unset gives HasError holding a copy of the source's \<^verbatim>\<open>e_\<close>,
  also when \<^verbatim>\<open>e_\<close> holds no failure. The result is never Empty.
\<close>

theorem Try_from_Try_void_states:
  "(m_hasValue t \<longrightarrow> Try_from_Try_void t = Try_from_value ()) \<and>
   (\<not> m_hasValue t \<longrightarrow> Try_from_Try_void t = Try_from_exception (m_e t)) \<and>
   Try_from_Try_void t \<noteq> Try_default"
  by (cases "m_hasValue t")
     (simp_all add: Try_from_Try_void_def Try_void_hasValue_def Try_void_hasException_def
        Try_void_exception_def Try_from_value_def Try_from_exception_def Try_default_def Let_def)

text \<open>
  The theorem at a source that has a value and at a source that has a captured failure.
\<close>

theorem Try_from_Try_void_states_witness:
  "m_hasValue (Try_void_default :: string Try_void) \<and>
   Try_from_Try_void (Try_void_default :: string Try_void) = Try_from_value () \<and>
   \<not> m_hasValue (Try_void_from_exception (Wrapper_std (Std_exception ''boom''))) \<and>
   Try_from_Try_void (Try_void_from_exception (Wrapper_std (Std_exception ''boom'')))
     = Try_from_exception (Wrapper_std (Std_exception ''boom''))"
proof -
  let ?failed = "Try_void_from_exception (Wrapper_std (Std_exception ''boom'')) :: string Try_void"
  have a: "m_hasValue (Try_void_default :: string Try_void)"
    by (simp add: Try_void_default_def)
  have b: "\<not> m_hasValue ?failed"
    by (simp add: Try_void_from_exception_def)
  have b': "m_e ?failed = Wrapper_std (Std_exception ''boom'')"
    by (simp add: Try_void_from_exception_def)
  show ?thesis
    using Try_from_Try_void_states [of "Try_void_default :: string Try_void"]
      Try_from_Try_void_states [of ?failed] a b
    unfolding b' by blast
qed

text \<open>
  C5 as stated fails at the empty source, the one with neither a value nor a captured
  failure: its conversion has the tag \<^verbatim>\<open>EXCEPTION\<close> over an empty wrapper, and is
  not Empty.
\<close>

theorem Try_from_Try_void_empty_counterexample:
  "\<not> m_hasValue \<lparr>m_hasValue = False, m_e = (Wrapper_empty :: string exception_wrapper)\<rparr> \<and>
   captured (m_e \<lparr>m_hasValue = False, m_e = (Wrapper_empty :: string exception_wrapper)\<rparr>) = None \<and>
   Try_from_Try_void \<lparr>m_hasValue = False, m_e = (Wrapper_empty :: string exception_wrapper)\<rparr>
     = \<lparr>m_contains = EXCEPTION, m_storage = E_alive Wrapper_empty\<rparr> \<and>
   Try_from_Try_void \<lparr>m_hasValue = False, m_e = (Wrapper_empty :: string exception_wrapper)\<rparr>
     \<noteq> Try_default"
  by (simp add: Try_from_Try_void_def Try_void_hasValue_def Try_void_hasException_def
      Try_void_exception_def Try_default_def)

section \<open>\<^verbatim>\<open>makeTryWith\<close>: capturing the outcome\<close>

text \<open>
  C6, as the code has it. \<^verbatim>\<open>makeTryWith\<close> invokes the operation exactly once: an
  invocation counter goes up by one, whatever the operation does. When the operation
  returns \<open>v\<close> and constructing the \<^verbatim>\<open>Try\<close> from \<open>v\<close> does not raise, the result is
  in the HasValue state and holds \<open>v\<close>. When that construction raises, the failure is
  caught like a failure of the operation and the result is in the HasError state and
  re-raises it. The void overload returns a \<^verbatim>\<open>Try<void>\<close> that has a value.
\<close>

theorem makeTryWith_captures_value:
  "(f w = (Returns v, w') \<and> T_move_raises M v = None \<longrightarrow>
      makeTryWith M f w = (Returns (Try_from_value v), w')) \<and>
   (f w = (Returns v, w') \<and> T_move_raises M v = Some x \<longrightarrow>
      (\<exists>t. makeTryWith M f w = (Returns t, w') \<and> m_contains t = EXCEPTION \<and>
           Try_value t = Throws x)) \<and>
   snd (makeTryWith M (counted f) (n, w)) = (Suc n, snd (f w)) \<and>
   (g w = (Returns (), w') \<longrightarrow>
      makeTryWith_void g w = (Returns Try_void_default, w') \<and>
      m_hasValue (Try_void_default :: 'x Try_void)) \<and>
   snd (makeTryWith_void (counted g) (n, w)) = (Suc n, snd (g w))"
proof (intro conjI impI)
  assume "f w = (Returns v, w') \<and> T_move_raises M v = None"
  then show "makeTryWith M f w = (Returns (Try_from_value v), w')"
    by (simp add: makeTryWith_def Try_ctor_value_def)
next
  assume "f w = (Returns v, w') \<and> T_move_raises M v = Some x"
  then show "\<exists>t. makeTryWith M f w = (Returns t, w') \<and> m_contains t = EXCEPTION \<and>
           Try_value t = Throws x"
    by (simp add: makeTryWith_def Try_ctor_value_def Try_from_exception_def
        Try_value_def Try_throwIfFailed_def)
next
  show "snd (makeTryWith M (counted f) (n, w)) = (Suc n, snd (f w))"
    by (cases "f w"; cases "fst (f w)")
       (auto simp: makeTryWith_def counted_def Try_ctor_value_def split: option.splits)
next
  assume "g w = (Returns (), w')"
  then show "makeTryWith_void g w = (Returns Try_void_default, w')"
    by (simp add: makeTryWith_void_def)
next
  show "m_hasValue (Try_void_default :: 'x Try_void)"
    by (simp add: Try_void_default_def)
next
  show "snd (makeTryWith_void (counted g) (n, w)) = (Suc n, snd (g w))"
    by (cases "g w"; cases "fst (g w)")
       (auto simp: makeTryWith_void_def counted_def)
qed

text \<open>
  The theorem at an operation that returns 42 and appends a mark to a log, with a
  value type that moves without raising and with one whose move raises, and at a void
  operation that only appends the mark.
\<close>

theorem makeTryWith_captures_value_witness:
  "makeTryWith (ops0 :: (string, nat) member_ops) (\<lambda>l. (Returns 42, l @ [True])) []
     = (Returns (Try_from_value 42), [True]) \<and>
   (\<exists>t. makeTryWith (ops_move_raising :: (string, nat) member_ops)
          (\<lambda>l. (Returns 42, l @ [True])) []
        = (Returns t, [True]) \<and>
        m_contains t = EXCEPTION \<and> Try_value t = Throws (Std_exception ''bad_alloc'')) \<and>
   makeTryWith_void (\<lambda>l. (Returns () :: (string, unit) outcome, l @ [True])) []
     = (Returns Try_void_default, [True]) \<and>
   m_hasValue (Try_void_default :: string Try_void)"
proof -
  let ?f = "\<lambda>l :: bool list. (Returns (42 :: nat) :: (string, nat) outcome, l @ [True])"
  let ?g = "\<lambda>l :: bool list. (Returns () :: (string, unit) outcome, l @ [True])"
  have ok: "?f [] = (Returns 42, [True]) \<and>
      T_move_raises (ops0 :: (string, nat) member_ops) 42 = None"
    by simp
  have raising: "?f [] = (Returns 42, [True]) \<and>
      T_move_raises (ops_move_raising :: (string, nat) member_ops) 42
        = Some (Std_exception ''bad_alloc'')"
    by simp
  have g: "?g [] = (Returns (), [True])"
    by simp
  note plain = makeTryWith_captures_value
      [where f = ?f and w = "[]" and v = 42 and w' = "[True]" and g = ?g
         and M = "ops0 :: (string, nat) member_ops"]
  note failing = makeTryWith_captures_value
      [where f = ?f and w = "[]" and v = 42 and w' = "[True]" and g = ?g
         and M = "ops_move_raising :: (string, nat) member_ops"
         and x = "Std_exception ''bad_alloc''"]
  have a: "makeTryWith (ops0 :: (string, nat) member_ops) ?f [] = (Returns (Try_from_value 42), [True])"
    by (rule plain [THEN conjunct1, THEN mp]) (rule ok)
  have b: "\<exists>t. makeTryWith (ops_move_raising :: (string, nat) member_ops) ?f []
        = (Returns t, [True]) \<and>
        m_contains t = EXCEPTION \<and> Try_value t = Throws (Std_exception ''bad_alloc'')"
    by (rule failing [THEN conjunct2, THEN conjunct1, THEN mp]) (rule raising)
  have c: "makeTryWith_void ?g [] = (Returns Try_void_default, [True]) \<and>
      m_hasValue (Try_void_default :: string Try_void)"
    by (rule plain [THEN conjunct2, THEN conjunct2, THEN conjunct2, THEN conjunct1, THEN mp])
       (rule g)
  show ?thesis
    using a b c by blast
qed

text \<open>
  C6 as stated fails when the value type's move constructor raises: the operation
  returns 42 without raising, and the result is in the HasError state, holding the
  failure of the construction, not in the HasValue state.
\<close>

theorem makeTryWith_construction_counterexample:
  "makeTryWith (ops_move_raising :: (string, nat) member_ops)
      (\<lambda>l. (Returns 42, l @ [True])) []
     = (Returns (Try_from_exception (Wrapper_std (Std_exception ''bad_alloc''))), [True]) \<and>
   m_contains (Try_from_exception (Wrapper_std (Std_exception ''bad_alloc''))
                 :: (string, nat) Try) = EXCEPTION \<and>
   makeTryWith (ops_move_raising :: (string, nat) member_ops)
      (\<lambda>l. (Returns 42, l @ [True])) []
     \<noteq> (Returns (Try_from_value 42), [True])"
  by (simp add: makeTryWith_def Try_ctor_value_def Try_from_exception_def Try_from_value_def)

text \<open>
  C7. When the operation raises a failure, \<^verbatim>\<open>makeTryWith\<close> does not propagate it: it
  returns a \<^verbatim>\<open>Try\<close> in the HasError state whose value accessor re-raises that same
  failure. The void overload returns a \<^verbatim>\<open>Try<void>\<close> without value that has
  captured the failure and re-raises it from \<^verbatim>\<open>throwIfFailed\<close>.
\<close>

theorem makeTryWith_captures_failure:
  "(f w = (Throws x, w') \<longrightarrow>
      (\<exists>t. makeTryWith M f w = (Returns t, w') \<and> m_contains t = EXCEPTION \<and>
           consistent t \<and> Try_value t = Throws x)) \<and>
   (g w = (Throws x, w') \<longrightarrow>
      (\<exists>t. makeTryWith_void g w = (Returns t, w') \<and> \<not> m_hasValue t \<and>
           captured (m_e t) = Some x \<and> Try_void_throwIfFailed t = Throws x))"
  by (simp add: makeTryWith_def makeTryWith_void_def Try_from_exception_def consistent_def
      Try_value_def Try_throwIfFailed_def Try_void_from_exception_def Try_void_throwIfFailed_def)

text \<open>
  The theorem at an operation that raises a failure no standard handler knows, and at a
  void operation that raises the same.
\<close>

theorem makeTryWith_captures_failure_witness:
  "(\<exists>t. makeTryWith (ops0 :: (string, nat) member_ops)
          (\<lambda>l. (Throws (Other_exception ''boom''), l @ [True])) []
        = (Returns t, [True]) \<and>
        m_contains t = EXCEPTION \<and> consistent t \<and>
        Try_value t = Throws (Other_exception ''boom'')) \<and>
   (\<exists>t. makeTryWith_void
          (\<lambda>l. (Throws (Other_exception ''boom'') :: (string, unit) outcome, l @ [True])) []
        = (Returns t, [True]) \<and>
        \<not> m_hasValue t \<and> captured (m_e t) = Some (Other_exception ''boom'') \<and>
        Try_void_throwIfFailed t = Throws (Other_exception ''boom''))"
proof -
  let ?f = "\<lambda>l :: bool list.
    (Throws (Other_exception ''boom'') :: (string, nat) outcome, l @ [True])"
  let ?g = "\<lambda>l :: bool list.
    (Throws (Other_exception ''boom'') :: (string, unit) outcome, l @ [True])"
  have f: "?f [] = (Throws (Other_exception ''boom''), [True])"
    by simp
  have g: "?g [] = (Throws (Other_exception ''boom''), [True])"
    by simp
  note inst = makeTryWith_captures_failure
      [where f = ?f and w = "[]" and x = "Other_exception ''boom''" and w' = "[True]"
         and g = ?g and M = "ops0 :: (string, nat) member_ops"]
  have a: "\<exists>t. makeTryWith (ops0 :: (string, nat) member_ops) ?f [] = (Returns t, [True]) \<and>
        m_contains t = EXCEPTION \<and> consistent t \<and>
        Try_value t = Throws (Other_exception ''boom'')"
    by (rule inst [THEN conjunct1, THEN mp]) (rule f)
  have b: "\<exists>t. makeTryWith_void ?g [] = (Returns t, [True]) \<and>
        \<not> m_hasValue t \<and> captured (m_e t) = Some (Other_exception ''boom'') \<and>
        Try_void_throwIfFailed t = Throws (Other_exception ''boom'')"
    by (rule inst [THEN conjunct2, THEN mp]) (rule g)
  show ?thesis
    using a b by blast
qed

section \<open>\<^verbatim>\<open>unwrapTryTuple\<close>: all values, or the first failure\<close>














section \<open>Moving a \<^verbatim>\<open>Try\<close>\<close>

lemma consistent_left_behind: "consistent src \<Longrightarrow> consistent (left_behind M src)"
  by (cases "m_contains src"; cases "m_storage src") (simp_all add: consistent_def left_behind_def)


lemma end_lifetimes_Nil: "end_lifetimes [] s = s"
  by (simp add: end_lifetimes_def)

lemma Try_dtor_live:
  assumes "s p = Some ob" "consistent ob"
  shows "Try_dtor M p s =
           (Returns (), end_lifetimes (owned_by M ob) (s(p \<mapsto> ob\<lparr>m_storage := Raw\<rparr>)))"
  using assms
  by (cases "m_contains ob"; cases "m_storage ob")
     (auto simp: consistent_def Try_dtor_def tag_at_def destroy_value_def destroy_e_def
        set_storage_def owned_by_def end_lifetimes_def fun_eq_iff)

lemma adopt_move:
  assumes "this \<noteq> t" "s t = Some src" "consistent src"
    "s this = Some \<lparr>m_contains = m_contains src, m_storage = Raw\<rparr>"
    "\<forall>v. m_storage src = Value_alive v \<longrightarrow> T_move_raises M v = None"
  shows "(if tag_at s this = Some VALUE then new_value_move M this t s
          else if tag_at s this = Some EXCEPTION then new_e_move M this t s
          else (Returns (), s))
         = (Returns (), s(this \<mapsto> src, t \<mapsto> left_behind M src))"
  using assms
  by (cases "m_contains src"; cases "m_storage src")
     (auto simp: consistent_def tag_at_def new_value_move_def new_e_move_def set_storage_def
        left_behind_def fun_eq_iff)

lemma after_dtor:
  assumes ne: "this \<noteq> t" and src: "s t = Some src" and dst: "s this = Some dst" "consistent dst"
    and own: "this \<notin> set (owned_by M dst)" "t \<notin> set (owned_by M dst)"
  shows "Try_dtor M this s
              = (Returns (), end_lifetimes (owned_by M dst) (s(this \<mapsto> dst\<lparr>m_storage := Raw\<rparr>)))"
    and "adopt_tag this t (end_lifetimes (owned_by M dst) (s(this \<mapsto> dst\<lparr>m_storage := Raw\<rparr>)))
              = Some ((end_lifetimes (owned_by M dst) s)
                   (this \<mapsto> \<lparr>m_contains = m_contains src, m_storage = Raw\<rparr>))"
proof -
  show "Try_dtor M this s
              = (Returns (), end_lifetimes (owned_by M dst) (s(this \<mapsto> dst\<lparr>m_storage := Raw\<rparr>)))"
    using dst by (rule Try_dtor_live)
  have "dst\<lparr>m_storage := Raw, m_contains := m_contains src\<rparr>
      = \<lparr>m_contains = m_contains src, m_storage = Raw\<rparr>"
    by (cases dst) simp
  then show "adopt_tag this t (end_lifetimes (owned_by M dst) (s(this \<mapsto> dst\<lparr>m_storage := Raw\<rparr>)))
              = Some ((end_lifetimes (owned_by M dst) s)
                   (this \<mapsto> \<lparr>m_contains = m_contains src, m_storage = Raw\<rparr>))"
    using ne src own by (simp add: adopt_tag_def end_lifetimes_def fun_eq_iff)
qed

lemma Try_move_ctor_ok:
  assumes ne: "this \<noteq> t" and src: "s t = Some src" "consistent src"
    and nr: "\<forall>v. m_storage src = Value_alive v \<longrightarrow> T_move_raises M v = None"
  shows "Try_move_ctor M this t s = (Returns (), s(this \<mapsto> src, t \<mapsto> left_behind M src))"
proof -
  let ?s1 = "s(this \<mapsto> \<lparr>m_contains = m_contains src, m_storage = Raw\<rparr>)"
  have "(if tag_at ?s1 this = Some VALUE then new_value_move M this t ?s1
          else if tag_at ?s1 this = Some EXCEPTION then new_e_move M this t ?s1
          else (Returns (), ?s1))
         = (Returns (), ?s1(this \<mapsto> src, t \<mapsto> left_behind M src))"
    by (rule adopt_move) (use assms in simp_all)
  then show ?thesis
    using src(1) by (simp add: Try_move_ctor_def Let_def noexcept_def)
qed

lemma Try_move_assign_ok:
  assumes ne: "this \<noteq> t" and src: "s t = Some src" "consistent src"
    and dst: "s this = Some dst" "consistent dst"
    and own: "this \<notin> set (owned_by M dst)" "t \<notin> set (owned_by M dst)"
    and nr: "\<forall>v. m_storage src = Value_alive v \<longrightarrow> T_move_raises M v = None"
  shows "Try_move_assign M this t s =
           (Returns (), (end_lifetimes (owned_by M dst) s)(this \<mapsto> src, t \<mapsto> left_behind M src))"
proof -
  let ?s2 = "(end_lifetimes (owned_by M dst) s)
                   (this \<mapsto> \<lparr>m_contains = m_contains src, m_storage = Raw\<rparr>)"
  note d = after_dtor(1) [OF ne src(1) dst own]
  note a = after_dtor(2) [OF ne src(1) dst own]
  have t: "?s2 t = Some src"
    using ne src(1) own(2) by (simp add: end_lifetimes_def)
  have th: "?s2 this = Some \<lparr>m_contains = m_contains src, m_storage = Raw\<rparr>"
    by simp
  have "(if tag_at ?s2 this = Some VALUE then new_value_move M this t ?s2
          else if tag_at ?s2 this = Some EXCEPTION then new_e_move M this t ?s2
          else (Returns (), ?s2))
         = (Returns (), ?s2(this \<mapsto> src, t \<mapsto> left_behind M src))"
    by (rule adopt_move [OF ne t src(2) th nr])
  then show ?thesis
    using ne by (simp add: Try_move_assign_def d a noexcept_def)
qed


lemma store0_consistent: "store0 p = Some ob \<Longrightarrow> consistent ob"
  by (auto simp: consistent_def Try_default_def Try_from_value_def Try_from_exception_def
      split: if_splits)




section \<open>Copy assignment and the invariant\<close>

lemma adopt_copy:
  assumes "this \<noteq> t" "s t = Some src" "consistent src"
    "s this = Some \<lparr>m_contains = m_contains src, m_storage = Raw\<rparr>"
    "\<forall>v. m_storage src = Value_alive v \<longrightarrow> T_copy_raises M v = None"
  shows "(if tag_at s this = Some VALUE then new_value_copy M this t s
          else if tag_at s this = Some EXCEPTION then new_e_copy this t s
          else (Returns (), s))
         = (Returns (), s(this \<mapsto> src))"
  using assms
  by (cases "m_contains src"; cases "m_storage src")
     (auto simp: consistent_def tag_at_def new_value_copy_def new_e_copy_def set_storage_def
        fun_eq_iff)

lemma Try_copy_ctor_ok:
  assumes ne: "this \<noteq> t" and src: "s t = Some src" "consistent src"
    and nr: "\<forall>v. m_storage src = Value_alive v \<longrightarrow> T_copy_raises M v = None"
  shows "Try_copy_ctor M this t s = (Returns (), s(this \<mapsto> src))"
proof -
  let ?s1 = "s(this \<mapsto> \<lparr>m_contains = m_contains src, m_storage = Raw\<rparr>)"
  have "(if tag_at ?s1 this = Some VALUE then new_value_copy M this t ?s1
          else if tag_at ?s1 this = Some EXCEPTION then new_e_copy this t ?s1
          else (Returns (), ?s1))
         = (Returns (), ?s1(this \<mapsto> src))"
    by (rule adopt_copy) (use assms in simp_all)
  then show ?thesis
    using src(1) by (simp add: Try_copy_ctor_def Let_def)
qed

lemma Try_copy_assign_ok:
  assumes ne: "this \<noteq> t" and src: "s t = Some src" "consistent src"
    and dst: "s this = Some dst" "consistent dst"
    and own: "this \<notin> set (owned_by M dst)" "t \<notin> set (owned_by M dst)"
    and nr: "\<forall>v. m_storage src = Value_alive v \<longrightarrow> T_copy_raises M v = None"
  shows "Try_copy_assign M this t s =
           (Returns (), (end_lifetimes (owned_by M dst) s)(this \<mapsto> src))"
proof -
  let ?s2 = "(end_lifetimes (owned_by M dst) s)
                   (this \<mapsto> \<lparr>m_contains = m_contains src, m_storage = Raw\<rparr>)"
  note d = after_dtor(1) [OF ne src(1) dst own]
  note a = after_dtor(2) [OF ne src(1) dst own]
  have t: "?s2 t = Some src"
    using ne src(1) own(2) by (simp add: end_lifetimes_def)
  have th: "?s2 this = Some \<lparr>m_contains = m_contains src, m_storage = Raw\<rparr>"
    by simp
  have "(if tag_at ?s2 this = Some VALUE then new_value_copy M this t ?s2
          else if tag_at ?s2 this = Some EXCEPTION then new_e_copy this t ?s2
          else (Returns (), ?s2))
         = (Returns (), ?s2(this \<mapsto> src))"
    by (rule adopt_copy [OF ne t src(2) th nr])
  then show ?thesis
    by (simp add: Try_copy_assign_def d a)
qed

lemma Try_copy_assign_self:
  assumes "s t = Some ob" "consistent ob" "m_contains ob \<noteq> NOTHING"
  shows "fst (Try_copy_assign M t t s) = Undefined"
    and "t \<notin> set (owned_by M ob) \<Longrightarrow>
           Try_copy_assign M t t s =
             (Undefined, end_lifetimes (owned_by M ob) (s(t \<mapsto> ob\<lparr>m_storage := Raw\<rparr>)))"
    and "\<not> consistent (ob\<lparr>m_storage := Raw\<rparr>)"
proof -
  let ?s1 = "end_lifetimes (owned_by M ob) (s(t \<mapsto> ob\<lparr>m_storage := Raw\<rparr>))"
  have d: "Try_dtor M t s = (Returns (), ?s1)"
    using assms(1,2) by (rule Try_dtor_live)
  have same: "ob\<lparr>m_storage := Raw, m_contains := m_contains ob\<rparr> = ob\<lparr>m_storage := Raw\<rparr>"
    by (cases ob) simp
  have out: "t \<notin> set (owned_by M ob) \<Longrightarrow> Try_copy_assign M t t s = (Undefined, ?s1)"
    using assms(3)
    by (cases "m_contains ob")
       (simp_all add: Try_copy_assign_def d adopt_tag_def end_lifetimes_def same tag_at_def
          new_value_copy_def new_e_copy_def fun_upd_idem)
  have inside: "t \<in> set (owned_by M ob) \<Longrightarrow> Try_copy_assign M t t s = (Undefined, ?s1)"
    by (simp add: Try_copy_assign_def d adopt_tag_def end_lifetimes_def)
  show "fst (Try_copy_assign M t t s) = Undefined"
    using out inside by (cases "t \<in> set (owned_by M ob)") simp_all
  show "t \<notin> set (owned_by M ob) \<Longrightarrow> Try_copy_assign M t t s = (Undefined, ?s1)"
    by (rule out)
  show "\<not> consistent (ob\<lparr>m_storage := Raw\<rparr>)"
    using assms(3) by (cases "m_contains ob") (simp_all add: consistent_def)
qed

lemma Try_copy_assign_self_empty:
  assumes "s t = Some ob" "consistent ob" "m_contains ob = NOTHING"
  shows "Try_copy_assign M t t s = (Returns (), s)"
proof -
  have raw: "m_storage ob = Raw"
    using assms(2,3) by (cases "m_storage ob") (simp_all add: consistent_def)
  have d: "Try_dtor M t s = (Returns (), s)"
    using assms(1,3) by (simp add: Try_dtor_def tag_at_def)
  have "ob\<lparr>m_contains := NOTHING\<rparr> = ob"
    using assms(3) by (cases ob) simp
  then show ?thesis
    using assms(1,3) by (simp add: Try_copy_assign_def d adopt_tag_def tag_at_def fun_upd_idem)
qed

lemma Try_copy_assign_raising:
  assumes ne: "this \<noteq> t" and dst: "s this = Some dst" "consistent dst"
    and own: "this \<notin> set (owned_by M dst)" "t \<notin> set (owned_by M dst)"
    and src: "s t = Some src" "m_contains src = VALUE" "m_storage src = Value_alive v"
    and raises: "T_copy_raises M v = Some x"
  shows "Try_copy_assign M this t s =
           (Throws x, (end_lifetimes (owned_by M dst) s)
                        (this \<mapsto> \<lparr>m_contains = VALUE, m_storage = Raw\<rparr>))"
proof -
  let ?s2 = "(end_lifetimes (owned_by M dst) s)
                   (this \<mapsto> \<lparr>m_contains = m_contains src, m_storage = Raw\<rparr>)"
  note d = after_dtor(1) [OF ne src(1) dst own]
  note a = after_dtor(2) [OF ne src(1) dst own]
  have t: "?s2 t = Some src"
    using ne src(1) own(2) by (simp add: end_lifetimes_def)
  show ?thesis
    using ne src(2,3) raises t
    by (simp add: Try_copy_assign_def d a tag_at_def new_value_copy_def)
qed

lemma inv_upd:
  assumes "\<forall>p ob. s p = Some ob \<longrightarrow> consistent ob" "consistent a"
  shows "\<forall>p ob. (s(q \<mapsto> a)) p = Some ob \<longrightarrow> consistent ob"
  using assms by simp

lemma inv_end_lifetimes:
  assumes "\<forall>p ob. s p = Some ob \<longrightarrow> consistent ob"
  shows "\<forall>p ob. end_lifetimes qs s p = Some ob \<longrightarrow> consistent ob"
  using assms by (simp add: end_lifetimes_def)

text \<open>
  C10, as the code has it. In a store whose live objects all satisfy the invariant:
  copy assignment compares no addresses, so assigning an object that holds a value or a
  captured failure to itself destroys the live member and then reads the object again,
  which is undefined, and the tag it leaves names the destroyed member; assigning an
  Empty object to itself changes nothing; move assignment of an object to itself
  returns at once and changes nothing. Between two different objects, when the value of
  the source copies without raising, copy construction returns normally and keeps the
  invariant, and so does copy assignment onto a destination whose payload owns neither
  object; when the value of the source moves without raising, the same holds of move
  construction and move assignment. The conversion from \<^verbatim>\<open>Try<void>\<close> always gives
  an object that satisfies the invariant.
\<close>

theorem copy_assign_self_breaks_invariant:
  assumes inv: "\<forall>p ob. s p = Some ob \<longrightarrow> consistent ob"
  shows
  "(\<forall>ob. s t = Some ob \<and> m_contains ob \<noteq> NOTHING \<longrightarrow>
      fst (Try_copy_assign M t t s) = Undefined \<and>
      \<not> consistent (ob\<lparr>m_storage := Raw\<rparr>) \<and>
      (t \<notin> set (owned_by M ob) \<longrightarrow>
         Try_copy_assign M t t s =
           (Undefined, end_lifetimes (owned_by M ob) (s(t \<mapsto> ob\<lparr>m_storage := Raw\<rparr>))))) \<and>
   (\<forall>ob. s t = Some ob \<and> m_contains ob = NOTHING \<longrightarrow>
      Try_copy_assign M t t s = (Returns (), s)) \<and>
   Try_move_assign M t t s = (Returns (), s) \<and>
   (\<forall>src. this \<noteq> t \<and> s t = Some src \<and>
          (\<forall>v. m_storage src = Value_alive v \<longrightarrow> T_copy_raises M v = None) \<longrightarrow>
      Try_copy_ctor M this t s = (Returns (), s(this \<mapsto> src)) \<and>
      (\<forall>p ob. (s(this \<mapsto> src)) p = Some ob \<longrightarrow> consistent ob) \<and>
      (\<forall>dst. s this = Some dst \<and>
             this \<notin> set (owned_by M dst) \<and> t \<notin> set (owned_by M dst) \<longrightarrow>
         Try_copy_assign M this t s =
           (Returns (), (end_lifetimes (owned_by M dst) s)(this \<mapsto> src)) \<and>
         (\<forall>p ob. ((end_lifetimes (owned_by M dst) s)(this \<mapsto> src)) p = Some ob \<longrightarrow>
                 consistent ob))) \<and>
   (\<forall>src. this \<noteq> t \<and> s t = Some src \<and>
          (\<forall>v. m_storage src = Value_alive v \<longrightarrow> T_move_raises M v = None) \<longrightarrow>
      Try_move_ctor M this t s = (Returns (), s(this \<mapsto> src, t \<mapsto> left_behind M src)) \<and>
      (\<forall>p ob. (s(this \<mapsto> src, t \<mapsto> left_behind M src)) p = Some ob \<longrightarrow> consistent ob) \<and>
      (\<forall>dst. s this = Some dst \<and>
             this \<notin> set (owned_by M dst) \<and> t \<notin> set (owned_by M dst) \<longrightarrow>
         Try_move_assign M this t s =
           (Returns (),
            (end_lifetimes (owned_by M dst) s)(this \<mapsto> src, t \<mapsto> left_behind M src)) \<and>
         (\<forall>p ob. ((end_lifetimes (owned_by M dst) s)(this \<mapsto> src, t \<mapsto> left_behind M src)) p
                   = Some ob \<longrightarrow>
                 consistent ob))) \<and>
   consistent (Try_from_Try_void tv)"
proof -
  have self: "fst (Try_copy_assign M t t s) = Undefined \<and>
      \<not> consistent (ob\<lparr>m_storage := Raw\<rparr>) \<and>
      (t \<notin> set (owned_by M ob) \<longrightarrow>
         Try_copy_assign M t t s =
           (Undefined, end_lifetimes (owned_by M ob) (s(t \<mapsto> ob\<lparr>m_storage := Raw\<rparr>))))"
    if "s t = Some ob \<and> m_contains ob \<noteq> NOTHING" for ob
  proof -
    from that inv have h: "s t = Some ob" "consistent ob" "m_contains ob \<noteq> NOTHING"
      by auto
    show ?thesis
      using Try_copy_assign_self(1) [where s = s and t = t and ob = ob and M = M, OF h]
        Try_copy_assign_self(2) [where s = s and t = t and ob = ob and M = M, OF h]
        Try_copy_assign_self(3) [where s = s and t = t and ob = ob, OF h]
      by blast
  qed
  have self_empty: "Try_copy_assign M t t s = (Returns (), s)"
    if "s t = Some ob \<and> m_contains ob = NOTHING" for ob
  proof -
    from that inv have h: "s t = Some ob" "consistent ob" "m_contains ob = NOTHING"
      by auto
    show ?thesis
      using h by (rule Try_copy_assign_self_empty)
  qed
  have self_move: "Try_move_assign M t t s = (Returns (), s)"
    by (simp add: Try_move_assign_def noexcept_def)
  have copies: "Try_copy_ctor M this t s = (Returns (), s(this \<mapsto> src)) \<and>
      (\<forall>p ob. (s(this \<mapsto> src)) p = Some ob \<longrightarrow> consistent ob) \<and>
      (\<forall>dst. s this = Some dst \<and>
             this \<notin> set (owned_by M dst) \<and> t \<notin> set (owned_by M dst) \<longrightarrow>
         Try_copy_assign M this t s =
           (Returns (), (end_lifetimes (owned_by M dst) s)(this \<mapsto> src)) \<and>
         (\<forall>p ob. ((end_lifetimes (owned_by M dst) s)(this \<mapsto> src)) p = Some ob \<longrightarrow>
                 consistent ob))"
    if "this \<noteq> t \<and> s t = Some src \<and>
          (\<forall>v. m_storage src = Value_alive v \<longrightarrow> T_copy_raises M v = None)" for src
  proof -
    from that inv have h: "this \<noteq> t" "s t = Some src" "consistent src"
        "\<forall>v. m_storage src = Value_alive v \<longrightarrow> T_copy_raises M v = None"
      by auto
    have a: "Try_copy_ctor M this t s = (Returns (), s(this \<mapsto> src))"
      using h by (rule Try_copy_ctor_ok)
    have b: "\<forall>p ob. (s(this \<mapsto> src)) p = Some ob \<longrightarrow> consistent ob"
      using inv h(3) by (rule inv_upd)
    have c: "Try_copy_assign M this t s =
           (Returns (), (end_lifetimes (owned_by M dst) s)(this \<mapsto> src)) \<and>
         (\<forall>p ob. ((end_lifetimes (owned_by M dst) s)(this \<mapsto> src)) p = Some ob \<longrightarrow>
                 consistent ob)"
      if "s this = Some dst \<and> this \<notin> set (owned_by M dst) \<and> t \<notin> set (owned_by M dst)"
      for dst
    proof -
      from that inv have g: "s this = Some dst" "consistent dst"
          "this \<notin> set (owned_by M dst)" "t \<notin> set (owned_by M dst)"
        by auto
      have "Try_copy_assign M this t s =
           (Returns (), (end_lifetimes (owned_by M dst) s)(this \<mapsto> src))"
        using h(1-3) g h(4) by (rule Try_copy_assign_ok)
      moreover have "\<forall>p ob. ((end_lifetimes (owned_by M dst) s)(this \<mapsto> src)) p = Some ob \<longrightarrow>
                 consistent ob"
        using inv_end_lifetimes [OF inv] h(3) by (rule inv_upd)
      ultimately show ?thesis
        by blast
    qed
    show ?thesis
      using a b c by blast
  qed
  have moves: "Try_move_ctor M this t s = (Returns (), s(this \<mapsto> src, t \<mapsto> left_behind M src)) \<and>
      (\<forall>p ob. (s(this \<mapsto> src, t \<mapsto> left_behind M src)) p = Some ob \<longrightarrow> consistent ob) \<and>
      (\<forall>dst. s this = Some dst \<and>
             this \<notin> set (owned_by M dst) \<and> t \<notin> set (owned_by M dst) \<longrightarrow>
         Try_move_assign M this t s =
           (Returns (),
            (end_lifetimes (owned_by M dst) s)(this \<mapsto> src, t \<mapsto> left_behind M src)) \<and>
         (\<forall>p ob. ((end_lifetimes (owned_by M dst) s)(this \<mapsto> src, t \<mapsto> left_behind M src)) p
                   = Some ob \<longrightarrow>
                 consistent ob))"
    if "this \<noteq> t \<and> s t = Some src \<and>
          (\<forall>v. m_storage src = Value_alive v \<longrightarrow> T_move_raises M v = None)" for src
  proof -
    from that inv have h: "this \<noteq> t" "s t = Some src" "consistent src"
        "\<forall>v. m_storage src = Value_alive v \<longrightarrow> T_move_raises M v = None"
      by auto
    have lb: "consistent (left_behind M src)"
      using h(3) by (rule consistent_left_behind)
    have a: "Try_move_ctor M this t s = (Returns (), s(this \<mapsto> src, t \<mapsto> left_behind M src))"
      using h by (rule Try_move_ctor_ok)
    have b: "\<forall>p ob. (s(this \<mapsto> src, t \<mapsto> left_behind M src)) p = Some ob \<longrightarrow> consistent ob"
      using inv_upd [OF inv h(3)] lb by (rule inv_upd)
    have c: "Try_move_assign M this t s =
           (Returns (),
            (end_lifetimes (owned_by M dst) s)(this \<mapsto> src, t \<mapsto> left_behind M src)) \<and>
         (\<forall>p ob. ((end_lifetimes (owned_by M dst) s)(this \<mapsto> src, t \<mapsto> left_behind M src)) p
                   = Some ob \<longrightarrow>
                 consistent ob)"
      if "s this = Some dst \<and> this \<notin> set (owned_by M dst) \<and> t \<notin> set (owned_by M dst)"
      for dst
    proof -
      from that inv have g: "s this = Some dst" "consistent dst"
          "this \<notin> set (owned_by M dst)" "t \<notin> set (owned_by M dst)"
        by auto
      have "Try_move_assign M this t s =
           (Returns (),
            (end_lifetimes (owned_by M dst) s)(this \<mapsto> src, t \<mapsto> left_behind M src))"
        using h(1-3) g h(4) by (rule Try_move_assign_ok)
      moreover have "\<forall>p ob. ((end_lifetimes (owned_by M dst) s)(this \<mapsto> src, t \<mapsto> left_behind M src)) p
                   = Some ob \<longrightarrow> consistent ob"
        using inv_upd [OF inv_end_lifetimes [OF inv] h(3)] lb by (rule inv_upd)
      ultimately show ?thesis
        by blast
    qed
    show ?thesis
      using a b c by blast
  qed
  have conv: "consistent (Try_from_Try_void tv)"
    by (simp add: Try_from_Try_void_def consistent_def Let_def Try_void_hasValue_def
        Try_void_hasException_def)
  show ?thesis
    using self self_empty self_move copies moves conv by blast
qed

text \<open>
  The theorem in the example store, with member types that never raise and own
  nothing: self-assignment at address 1 (a value) and at address 3 (empty),
  construction at the free address 4 and assignment onto address 0, both from address 1.
\<close>

theorem copy_assign_self_breaks_invariant_witness:
  "fst (Try_copy_assign ops0 1 1 store0) = Undefined \<and>
   \<not> consistent ((Try_from_value 11 :: (string, nat) Try)\<lparr>m_storage := Raw\<rparr>) \<and>
   Try_copy_assign ops0 1 1 store0 =
     (Undefined,
      end_lifetimes (owned_by ops0 (Try_from_value 11))
        (store0(1 \<mapsto> (Try_from_value 11)\<lparr>m_storage := Raw\<rparr>))) \<and>
   Try_copy_assign ops0 3 3 store0 = (Returns (), store0) \<and>
   Try_move_assign ops0 1 1 store0 = (Returns (), store0) \<and>
   Try_copy_ctor ops0 4 1 store0 = (Returns (), store0(4 \<mapsto> Try_from_value 11)) \<and>
   Try_copy_assign ops0 0 1 store0 =
     (Returns (), (end_lifetimes (owned_by ops0 (Try_from_value 10)) store0)
                    (0 \<mapsto> Try_from_value 11)) \<and>
   Try_move_ctor ops0 4 1 store0 =
     (Returns (), store0(4 \<mapsto> Try_from_value 11, 1 \<mapsto> left_behind ops0 (Try_from_value 11))) \<and>
   Try_move_assign ops0 0 1 store0 =
     (Returns (), (end_lifetimes (owned_by ops0 (Try_from_value 10)) store0)
                    (0 \<mapsto> Try_from_value 11, 1 \<mapsto> left_behind ops0 (Try_from_value 11)))"
proof -
  have inv: "\<forall>p ob. store0 p = Some ob \<longrightarrow> consistent ob"
    using store0_consistent by blast
  have full: "store0 1 = Some (Try_from_value 11) \<and>
      m_contains (Try_from_value 11 :: (string, nat) Try) \<noteq> NOTHING \<and>
      1 \<notin> set (owned_by ops0 (Try_from_value 11))"
    by (simp add: Try_from_value_def owned_by_def)
  have empty: "store0 3 = Some Try_default \<and>
      m_contains (Try_default :: (string, nat) Try) = NOTHING"
    by (simp add: Try_default_def)
  have src: "store0 1 = Some (Try_from_value 11) \<and>
      (\<forall>v. m_storage (Try_from_value 11 :: (string, nat) Try) = Value_alive v \<longrightarrow>
           T_copy_raises ops0 v = None) \<and>
      (\<forall>v. m_storage (Try_from_value 11 :: (string, nat) Try) = Value_alive v \<longrightarrow>
           T_move_raises ops0 v = None)"
    by simp
  have dst: "store0 0 = Some (Try_from_value 10) \<and>
      0 \<notin> set (owned_by ops0 (Try_from_value 10)) \<and> 1 \<notin> set (owned_by ops0 (Try_from_value 10))"
    by (simp add: Try_from_value_def owned_by_def)
  have ne: "(4 :: nat) \<noteq> 1 \<and> (0 :: nat) \<noteq> 1"
    by simp
  note at_4 = copy_assign_self_breaks_invariant
      [where s = store0 and t = 1 and this = 4 and M = ops0, OF inv]
  note at_3 = copy_assign_self_breaks_invariant
      [where s = store0 and t = 3 and this = 4 and M = ops0, OF inv]
  note at_0 = copy_assign_self_breaks_invariant
      [where s = store0 and t = 1 and this = 0 and M = ops0, OF inv]
  have self: "fst (Try_copy_assign ops0 1 1 store0) = Undefined \<and>
      \<not> consistent ((Try_from_value 11 :: (string, nat) Try)\<lparr>m_storage := Raw\<rparr>) \<and>
      (1 \<notin> set (owned_by ops0 (Try_from_value 11)) \<longrightarrow>
       Try_copy_assign ops0 1 1 store0 =
         (Undefined,
          end_lifetimes (owned_by ops0 (Try_from_value 11))
            (store0(1 \<mapsto> (Try_from_value 11)\<lparr>m_storage := Raw\<rparr>))))"
    by (rule at_4 [THEN conjunct1, THEN spec, THEN mp]) (use full in blast)
  have self_empty: "Try_copy_assign ops0 3 3 store0 = (Returns (), store0)"
    by (rule at_3 [THEN conjunct2, THEN conjunct1, THEN spec, THEN mp]) (rule empty)
  have self_move: "Try_move_assign ops0 1 1 store0 = (Returns (), store0)"
    by (rule at_4 [THEN conjunct2, THEN conjunct2, THEN conjunct1])
  have copy_4: "Try_copy_ctor ops0 4 1 store0 = (Returns (), store0(4 \<mapsto> Try_from_value 11))"
    by (rule at_4 [THEN conjunct2, THEN conjunct2, THEN conjunct2, THEN conjunct1, THEN spec,
          THEN mp, THEN conjunct1])
       (use src ne in blast)
  have copy_0: "Try_copy_assign ops0 0 1 store0 =
     (Returns (), (end_lifetimes (owned_by ops0 (Try_from_value 10)) store0)
                    (0 \<mapsto> Try_from_value 11))"
    by (rule at_0 [THEN conjunct2, THEN conjunct2, THEN conjunct2, THEN conjunct1, THEN spec,
          THEN mp, THEN conjunct2, THEN conjunct2, THEN spec, THEN mp, THEN conjunct1])
       (use src ne in blast, rule dst)
  have move_4: "Try_move_ctor ops0 4 1 store0 =
     (Returns (), store0(4 \<mapsto> Try_from_value 11, 1 \<mapsto> left_behind ops0 (Try_from_value 11)))"
    by (rule at_4 [THEN conjunct2, THEN conjunct2, THEN conjunct2, THEN conjunct2,
          THEN conjunct1, THEN spec, THEN mp, THEN conjunct1])
       (use src ne in blast)
  have move_0: "Try_move_assign ops0 0 1 store0 =
     (Returns (), (end_lifetimes (owned_by ops0 (Try_from_value 10)) store0)
                    (0 \<mapsto> Try_from_value 11, 1 \<mapsto> left_behind ops0 (Try_from_value 11)))"
    by (rule at_0 [THEN conjunct2, THEN conjunct2, THEN conjunct2, THEN conjunct2,
          THEN conjunct1, THEN spec, THEN mp, THEN conjunct2, THEN conjunct2, THEN spec,
          THEN mp, THEN conjunct1])
       (use src ne in blast, rule dst)
  show ?thesis
    using self full self_empty self_move copy_4 copy_0 move_4 move_0 by blast
qed

text \<open>
  C10 as stated fails: self-copy-assignment is not the one operation that can break the
  invariant. Copy assignment from a different object whose value fails to copy has
  already destroyed the destination's member and set its tag to \<^verbatim>\<open>VALUE\<close> when the
  copy constructor of \<^verbatim>\<open>T\<close> raises; the failure propagates and the destination is
  left with a tag that names a dead member. Copy assignment and move assignment from a
  source that the destination's payload owns destroy the source before reading it. And
  assigning an Empty object to itself reads no member at all.
\<close>

theorem copy_assign_raising_counterexample:
  "store0 0 = Some (Try_from_value 10) \<and> store0 1 = Some (Try_from_value 11) \<and>
   (0 :: nat) \<noteq> 1 \<and>
   fst (Try_copy_assign ops_copy_raising 0 1 store0) = Throws (Std_exception ''bad_alloc'') \<and>
   snd (Try_copy_assign ops_copy_raising 0 1 store0) 0
     = Some \<lparr>m_contains = VALUE, m_storage = Raw\<rparr> \<and>
   \<not> consistent (\<lparr>m_contains = VALUE, m_storage = Raw\<rparr> :: (string, nat) Try) \<and>
   store0 3 = Some Try_default \<and>
   m_contains (Try_default :: (string, nat) Try) = NOTHING \<and>
   Try_copy_assign ops0 3 3 store0 = (Returns (), store0) \<and>
   1 \<in> set (T_owns ops_owning 10) \<and>
   fst (Try_copy_assign ops_owning 0 1 store0) = Undefined \<and>
   fst (Try_move_assign ops_owning 0 1 store0) = Undefined"
proof -
  have c0: "consistent (Try_from_value 10 :: (string, nat) Try)"
    and c3: "consistent (Try_default :: (string, nat) Try)"
    by (simp_all add: consistent_def Try_from_value_def Try_default_def)
  have raising: "Try_copy_assign ops_copy_raising 0 1 store0 =
      (Throws (Std_exception ''bad_alloc''),
       (end_lifetimes (owned_by ops_copy_raising (Try_from_value 10)) store0)
         (0 \<mapsto> \<lparr>m_contains = VALUE, m_storage = Raw\<rparr>))"
    by (rule Try_copy_assign_raising [where v = 11 and src = "Try_from_value 11"])
       (simp_all add: consistent_def Try_from_value_def owned_by_def)
  have e: "Try_copy_assign ops0 3 3 store0 = (Returns (), store0)"
    by (rule Try_copy_assign_self_empty [where ob = Try_default])
       (simp_all add: c3, simp add: Try_default_def)
  have o1: "fst (Try_copy_assign ops_owning 0 1 store0) = Undefined"
    by (simp add: Try_copy_assign_def Try_dtor_def tag_at_def destroy_value_def
        set_storage_def end_lifetimes_def adopt_tag_def Try_from_value_def)
  have o2: "fst (Try_move_assign ops_owning 0 1 store0) = Undefined"
    by (simp add: Try_move_assign_def noexcept_def Try_dtor_def tag_at_def destroy_value_def
        set_storage_def end_lifetimes_def adopt_tag_def Try_from_value_def)
  show ?thesis
    unfolding raising e o1 o2 fst_conv snd_conv
    by (simp add: consistent_def Try_default_def)
qed

end
